theory Spec2Isabelle
  imports Complex_Main "HOL-Library.Char_ord" "HOL-Library.List_Lexorder"
begin

section \<open>Data model\<close>

text \<open>
  Documents are records, collections are lists of documents in storage order. An ObjectId is
  a natural number, a JavaScript \<open>Date\<close> is its number of milliseconds since the epoch, and a
  GeoJSON point is the pair \<open>[longitude, latitude]\<close>. String-valued enum fields stay strings,
  as the schemas declare them. A handler reads the clock once: \<open>now\<close> is the value of every
  \<open>new Date()\<close> of one call.
\<close>

type_synonym objectId = nat
type_synonym date = int
type_synonym coords = "real \<times> real"

text \<open>
  What a collection holds under a Boolean path: nothing (the path was never written, or was
  unset by assigning \<open>undefined\<close>), \<open>null\<close>, or a Boolean.
\<close>

datatype stored_flag = Unset | Null | Stored bool

datatype error = ValidationError | CastError | TypeError | MongoError | DuplicateKey | EmailError

record user =
  user_id :: objectId
  fullName :: string
  email :: string
  role :: string

record donor =
  donor_id :: objectId
  donor_user :: objectId
  donor_bloodType :: string
  age :: int
  weight :: int
  lastDonationDate :: "date option"
  stored_isAvailable :: stored_flag
  donor_location :: coords
  donationCount :: int
  totalVolumeDonated :: int

record bloodRequest =
  request_id :: objectId
  requester :: objectId
  request_bloodType :: string
  unitsNeeded :: int
  urgency :: string
  requiredBy :: date
  request_location :: coords
  request_status :: string
  unitsFulfilled :: int

text \<open>
  \<open>populate(path, ...)\<close> replaces a reference by the referenced document, or by \<open>null\<close> when
  no document has that id. The populated value travels beside the document.
\<close>

definition findById :: "('a \<Rightarrow> objectId) \<Rightarrow> objectId \<Rightarrow> 'a list \<Rightarrow> 'a option" where
  "findById ident i xs = find (\<lambda>x. ident x = i) xs"

definition populate :: "user list \<Rightarrow> ('a \<Rightarrow> objectId) \<Rightarrow> 'a list \<Rightarrow> ('a \<times> user option) list" where
  "populate users ref xs = map (\<lambda>x. (x, findById user_id (ref x) users)) xs"

section \<open>Geospatial queries\<close>

text \<open>
  The \<open>$near\<close> operator belongs to the database. Its distance on the sphere is the
  parameter \<open>geo\<close> (metres between two points). The operator keeps the documents whose
  distance from the query point is at most \<open>$maxDistance\<close>, nearest first, and the database
  rejects a query point outside the longitude and latitude ranges and a negative
  \<open>$maxDistance\<close>.
\<close>

definition valid_point :: "coords \<Rightarrow> bool" where
  "valid_point p = (- 180 \<le> fst p \<and> fst p \<le> 180 \<and> - 90 \<le> snd p \<and> snd p \<le> 90)"

definition near :: "(coords \<Rightarrow> coords \<Rightarrow> real) \<Rightarrow> ('a \<Rightarrow> coords) \<Rightarrow> coords \<Rightarrow> real \<Rightarrow> 'a list
    \<Rightarrow> error + 'a list" where
  "near geo loc p maxDistance xs =
     (if valid_point p \<and> 0 \<le> maxDistance
      then Inr (sort_key (\<lambda>x. geo p (loc x)) (filter (\<lambda>x. geo p (loc x) \<le> maxDistance) xs))
      else Inl MongoError)"

section \<open>Donor model (models/Donor.js)\<close>

text \<open>
  \<open>this.isAvailable\<close> of a loaded document, read as a condition. On load the schema default
  \<open>true\<close> stands in for a path the stored document lacks; \<open>null\<close> is loaded as \<open>null\<close>,
  which is falsy.
\<close>

definition isAvailable :: "donor \<Rightarrow> bool" where
  "isAvailable d = (case stored_isAvailable d of Unset \<Rightarrow> True | Null \<Rightarrow> False | Stored b \<Rightarrow> b)"

text \<open>
  \<open>nextEligibleDonationDate\<close>: \<open>setDate(getDate() + 56)\<close> moves the date by 56 calendar days
  of the server's local time. That arithmetic belongs to the runtime and its time zone and
  is the parameter \<open>plusDays\<close>: \<open>plusDays n t\<close> is the date \<open>setDate(getDate() + n)\<close> turns \<open>t\<close>
  into. Where the zone's UTC offset never changes it adds \<open>n * 86400000\<close> ms; across a
  change of the offset it differs from that by the change.
\<close>

definition nextEligibleDonationDate :: "(int \<Rightarrow> date \<Rightarrow> date) \<Rightarrow> date \<Rightarrow> donor \<Rightarrow> date" where
  "nextEligibleDonationDate plusDays now d =
     (case lastDonationDate d of None \<Rightarrow> now | Some l \<Rightarrow> plusDays 56 l)"

definition isEligibleToDonate :: "(int \<Rightarrow> date \<Rightarrow> date) \<Rightarrow> date \<Rightarrow> donor \<Rightarrow> bool" where
  "isEligibleToDonate plusDays now d =
     (if \<not> isAvailable d then False
      else if lastDonationDate d = None then True
      else nextEligibleDonationDate plusDays now d \<le> now)"

definition updateAvailability :: "(int \<Rightarrow> date \<Rightarrow> date) \<Rightarrow> date \<Rightarrow> donor \<Rightarrow> donor" where
  "updateAvailability plusDays now d =
     d\<lparr>stored_isAvailable := Stored (isEligibleToDonate plusDays now d)\<rparr>"

text \<open>
  \<open>Donor.findNearby(coordinates, maxDistance = 50000, bloodType = null)\<close>. The query
  \<open>isAvailable: true\<close> is matched against the stored documents, so it matches a stored
  \<open>true\<close> only. The filter on \<open>bloodType\<close> is added when the argument is truthy: given and
  not the empty string.
\<close>

definition Donor_findNearby :: "(coords \<Rightarrow> coords \<Rightarrow> real) \<Rightarrow> user list \<Rightarrow> donor list \<Rightarrow> coords \<Rightarrow> real
    \<Rightarrow> string option \<Rightarrow> error + (donor \<times> user option) list" where
  "Donor_findNearby geo users donors coordinates maxDistance bloodType =
     (case near geo donor_location coordinates maxDistance donors of
        Inl e \<Rightarrow> Inl e
      | Inr ds \<Rightarrow>
          Inr (populate users donor_user
                (filter (\<lambda>d. stored_isAvailable d = Stored True \<and>
                             (case bloodType of
                                None \<Rightarrow> True
                              | Some t \<Rightarrow> if t = [] then True else donor_bloodType d = t))
                        ds)))"

section \<open>Blood request model\<close>

text \<open>
  The helper \<open>getCompatibleBloodTypes\<close>: the table, and \<open>[]\<close> for a key the table does not
  have. Keys that every JavaScript object inherits (\<open>constructor\<close> and the like) are not blood
  types and are outside the model.
\<close>

definition getCompatibleBloodTypes :: "string \<Rightarrow> string list" where
  "getCompatibleBloodTypes donorBloodType =
     (if donorBloodType = ''O-'' then [''O-'', ''O+'', ''A-'', ''A+'', ''B-'', ''B+'', ''AB-'', ''AB+'']
      else if donorBloodType = ''O+'' then [''O+'', ''A+'', ''B+'', ''AB+'']
      else if donorBloodType = ''A-'' then [''A-'', ''A+'', ''AB-'', ''AB+'']
      else if donorBloodType = ''A+'' then [''A+'', ''AB+'']
      else if donorBloodType = ''B-'' then [''B-'', ''B+'', ''AB-'', ''AB+'']
      else if donorBloodType = ''B+'' then [''B+'', ''AB+'']
      else if donorBloodType = ''AB-'' then [''AB-'', ''AB+'']
      else if donorBloodType = ''AB+'' then [''AB+'']
      else [])"

text \<open>
  \<open>.sort({ urgency: -1, requiredBy: 1 })\<close>: \<open>urgency\<close> is a String field, which the database
  compares as a string (byte by byte); \<open>-1\<close> is descending. Among equal urgencies the earlier
  \<open>requiredBy\<close> comes first. The order of documents equal on both keys is the database's
  choice; the model keeps their incoming order.
\<close>

definition sort_before :: "bloodRequest \<Rightarrow> bloodRequest \<Rightarrow> bool" where
  "sort_before a b =
     (urgency b < urgency a \<or> (urgency a = urgency b \<and> requiredBy a \<le> requiredBy b))"

fun insert_sorted :: "bloodRequest \<Rightarrow> bloodRequest list \<Rightarrow> bloodRequest list" where
  "insert_sorted x [] = [x]"
| "insert_sorted x (y # ys) = (if sort_before x y then x # y # ys else y # insert_sorted x ys)"

definition sort_requests :: "bloodRequest list \<Rightarrow> bloodRequest list" where
  "sort_requests xs = foldr insert_sorted xs []"

definition request_matches :: "date \<Rightarrow> string option \<Rightarrow> bloodRequest \<Rightarrow> bool" where
  "request_matches now bloodType r =
     ((request_status r = ''active'' \<or> request_status r = ''partially_fulfilled'') \<and>
      now < requiredBy r \<and>
      (case bloodType of
         None \<Rightarrow> True
       | Some t \<Rightarrow> if t = [] then True else request_bloodType r \<in> set (getCompatibleBloodTypes t)))"

definition BloodRequest_findNearby :: "(coords \<Rightarrow> coords \<Rightarrow> real) \<Rightarrow> date \<Rightarrow> user list
    \<Rightarrow> bloodRequest list \<Rightarrow> coords \<Rightarrow> real \<Rightarrow> string option \<Rightarrow> error + (bloodRequest \<times> user option) list" where
  "BloodRequest_findNearby geo now users requests coordinates maxDistance bloodType =
     (case near geo request_location coordinates maxDistance requests of
        Inl e \<Rightarrow> Inl e
      | Inr rs \<Rightarrow>
          Inr (populate users requester
                (sort_requests (filter (request_matches now bloodType) rs))))"


section \<open>HTTP responses and the console\<close>

text \<open>
  A response is the status code with the JSON body: \<open>success\<close>, the message (\<open>message\<close>, or
  \<open>error.message\<close> of a failure) and the payload under \<open>data\<close>. The failures of the error
  taxonomy are told apart by the status code: 400 precondition or validation, 403
  authorization, 404 not found, 500 server error.
\<close>

record 'a response =
  code :: nat
  success :: bool
  message :: string
  data :: "'a option"

definition fail :: "nat \<Rightarrow> string \<Rightarrow> 'a response" where
  "fail c msg = \<lparr>code = c, success = False, message = msg, data = None\<rparr>"

definition ok :: "nat \<Rightarrow> string \<Rightarrow> 'a \<Rightarrow> 'a response" where
  "ok c msg d = \<lparr>code = c, success = True, message = msg, data = Some d\<rparr>"

text \<open>The lines written with \<open>console.error\<close>, in order.\<close>

datatype log_entry =
    EmailSendingFailed string
  | FailedToSendConfirmationEmail
  | FailedToNotifyDonor string
  | FailedToNotifyDonors
  | FailedToSendCertificateEmail
  | HandlerError string

section \<open>Donor controller\<close>

text \<open>
  \<open>getNearbyDonors\<close> reads the query string. \<open>parseFloat\<close> and \<open>parseInt\<close> are parameters;
  \<open>None\<close> stands for \<open>NaN\<close>, which the database rejects in a geospatial query.
\<close>

record nearby_query =
  latitude :: "string option"
  longitude :: "string option"
  maxDistance :: "string option"
  bloodType :: "string option"

definition getNearbyDonors :: "(string \<Rightarrow> real option) \<Rightarrow> (string \<Rightarrow> real option) \<Rightarrow> (coords \<Rightarrow> coords \<Rightarrow> real)
    \<Rightarrow> user list \<Rightarrow> donor list \<Rightarrow> nearby_query \<Rightarrow> (donor \<times> user option) list response" where
  "getNearbyDonors parseFloat parseInt geo users donors q =
     (case (latitude q, longitude q) of
        (Some lat, Some lon) \<Rightarrow>
          if lat = [] \<or> lon = [] then fail 400 ''Latitude and longitude are required''
          else
            (case (parseFloat lon, parseFloat lat,
                   (case maxDistance q of None \<Rightarrow> Some 50000 | Some m \<Rightarrow> parseInt m)) of
               (Some x, Some y, Some m) \<Rightarrow>
                 (case Donor_findNearby geo users donors (x, y) m (bloodType q) of
                    Inl e \<Rightarrow> fail 500 ''Server error while finding nearby donors''
                  | Inr ds \<Rightarrow> ok 200 [] ds)
             | _ \<Rightarrow> fail 500 ''Server error while finding nearby donors'')
      | _ \<Rightarrow> fail 400 ''Latitude and longitude are required'')"

text \<open>
  A JSON value of a request body, as far as its truthiness and its cast to a Boolean
  schema path matter. The cast accepts \<open>true\<close>, \<open>'true'\<close>, \<open>1\<close>, \<open>'1'\<close>, \<open>'yes'\<close> and
  \<open>false\<close>, \<open>'false'\<close>, \<open>0\<close>, \<open>'0'\<close>, \<open>'no'\<close>, keeps \<open>null\<close> and \<open>undefined\<close>, and fails on
  anything else when the document is saved. Saving a path that was assigned \<open>undefined\<close>
  unsets it in the stored document; \<open>null\<close> is stored as \<open>null\<close>.
\<close>

datatype jsval = JUndefined | JNull | JBool bool | JNum int | JStr string | JObject

fun truthy :: "jsval \<Rightarrow> bool" where
  "truthy JUndefined = False"
| "truthy JNull = False"
| "truthy (JBool b) = b"
| "truthy (JNum n) = (n \<noteq> 0)"
| "truthy (JStr s) = (s \<noteq> [])"
| "truthy JObject = True"

fun castBoolean :: "jsval \<Rightarrow> error + stored_flag" where
  "castBoolean JUndefined = Inr Unset"
| "castBoolean JNull = Inr Null"
| "castBoolean (JBool b) = Inr (Stored b)"
| "castBoolean (JNum n) =
     (if n = 1 then Inr (Stored True) else if n = 0 then Inr (Stored False) else Inl CastError)"
| "castBoolean (JStr s) =
     (if s = ''true'' \<or> s = ''1'' \<or> s = ''yes'' then Inr (Stored True)
      else if s = ''false'' \<or> s = ''0'' \<or> s = ''no'' then Inr (Stored False)
      else Inl CastError)"
| "castBoolean JObject = Inl CastError"

text \<open>
  \<open>doc.save()\<close> of a loaded document replaces the stored document with the same \<open>_id\<close>. A
  save runs the validators of the document's paths again. Every stored document passed the
  validators that do not read the clock when it was written, so a later save can fail only
  on a path the handler changed or on a validator that compares with the current time.
\<close>

definition save :: "('a \<Rightarrow> objectId) \<Rightarrow> 'a \<Rightarrow> 'a list \<Rightarrow> 'a list" where
  "save ident d xs = map (\<lambda>x. if ident x = ident d then d else x) xs"

definition must_wait :: string where
  "must_wait = ''Cannot set as available. Must wait 8 weeks from last donation.''"

text \<open>
  \<open>updateDonorAvailability\<close>; \<open>v\<close> is \<open>req.body.isAvailable\<close>, \<open>JUndefined\<close> when the body does
  not have the key (the route validates no body).
\<close>

definition updateDonorAvailability :: "(int \<Rightarrow> date \<Rightarrow> date) \<Rightarrow> date \<Rightarrow> donor list \<Rightarrow> objectId \<Rightarrow> jsval
    \<Rightarrow> donor list \<times> stored_flag response" where
  "updateDonorAvailability plusDays now donors uid v =
     (case find (\<lambda>d. donor_user d = uid) donors of
        None \<Rightarrow> (donors, fail 404 ''Donor profile not found'')
      | Some donor \<Rightarrow>
          if truthy v \<and> \<not> isEligibleToDonate plusDays now donor then (donors, fail 400 must_wait)
          else
            (case castBoolean v of
               Inl e \<Rightarrow> (donors, fail 500 ''Server error while updating availability'')
             | Inr b \<Rightarrow>
                 (save donor_id (donor\<lparr>stored_isAvailable := b\<rparr>) donors,
                  ok 200 (''Availability updated to '' @ (if truthy v then ''available'' else ''unavailable''))
                     b)))"

text \<open>
  \<open>updateDonor\<close> copies the allowed keys of the body onto the donor with \<open>Object.assign\<close> and
  saves. The body is given by the allowed keys that are fields of the donor record, each
  absent or holding a value of the field's type; \<open>lastDonationDate\<close> may be set to \<open>null\<close>.
  Saving validates \<open>age\<close> (18 to 65) and \<open>weight\<close> (at least 50), the geospatial index
  refuses a point out of range, and a default that was applied on load (\<open>isAvailable\<close> of a
  document that lacked it) is written with the save.
\<close>

record donor_update =
  upd_age :: "int option"
  upd_weight :: "int option"
  upd_lastDonationDate :: "date option option"
  upd_isAvailable :: "bool option"
  upd_location :: "coords option"

definition assign :: "donor_update \<Rightarrow> donor \<Rightarrow> donor" where
  "assign u d =
     d\<lparr>age := (case upd_age u of None \<Rightarrow> age d | Some a \<Rightarrow> a),
       weight := (case upd_weight u of None \<Rightarrow> weight d | Some w \<Rightarrow> w),
       lastDonationDate := (case upd_lastDonationDate u of None \<Rightarrow> lastDonationDate d | Some l \<Rightarrow> l),
       stored_isAvailable :=
         (case upd_isAvailable u of
            None \<Rightarrow> (case stored_isAvailable d of Unset \<Rightarrow> Stored True | f \<Rightarrow> f)
          | Some b \<Rightarrow> Stored b),
       donor_location := (case upd_location u of None \<Rightarrow> donor_location d | Some p \<Rightarrow> p)\<rparr>"

definition valid_donor :: "donor \<Rightarrow> bool" where
  "valid_donor d = (18 \<le> age d \<and> age d \<le> 65 \<and> 50 \<le> weight d \<and> valid_point (donor_location d))"

definition updateDonor :: "donor list \<Rightarrow> objectId \<Rightarrow> donor_update \<Rightarrow> donor list \<times> donor response" where
  "updateDonor donors uid body =
     (case find (\<lambda>d. donor_user d = uid) donors of
        None \<Rightarrow> (donors, fail 404 ''Donor profile not found'')
      | Some donor \<Rightarrow>
          if valid_donor (assign body donor)
          then (save donor_id (assign body donor) donors,
                ok 200 ''Donor profile updated successfully'' (assign body donor))
          else (donors, fail 500 ''Server error while updating donor profile''))"

section \<open>Blood request methods\<close>

definition isExpired :: "date \<Rightarrow> bloodRequest \<Rightarrow> bool" where
  "isExpired now r = (requiredBy r < now)"

definition updateStatus :: "date \<Rightarrow> bloodRequest \<Rightarrow> bloodRequest" where
  "updateStatus now r =
     (if isExpired now r \<and> request_status r = ''active'' then r\<lparr>request_status := ''expired''\<rparr>
      else if unitsNeeded r \<le> unitsFulfilled r then r\<lparr>request_status := ''fulfilled''\<rparr>
      else if 0 < unitsFulfilled r then r\<lparr>request_status := ''partially_fulfilled''\<rparr>
      else r)"

section \<open>Donations and certificates\<close>

record donation =
  donation_id :: objectId
  donation_donor :: objectId
  donation_bloodRequest :: objectId
  donationDate :: date
  volumeDonated :: int
  donation_bloodType :: string
  center_name :: string
  center_city :: string
  center_state :: string
  donation_status :: string
  overallResult :: string
  certificateGenerated :: bool
  certification_certificateId :: "string option"
  certification_generatedAt :: "date option"

record certificate =
  certificateId :: string
  certificate_donor :: objectId
  certificate_donation :: objectId
  title :: string
  description :: string
  details_donationDate :: date
  details_bloodType :: string
  details_volumeDonated :: int
  details_center_name :: string
  details_center_city :: string
  details_center_state :: string
  qrCode_data :: "(string \<times> string) option"
  verificationCode :: string
  certificate_status :: string
  generatedAt :: date

record db =
  users :: "user list"
  donors :: "donor list"
  requests :: "bloodRequest list"
  donations :: "donation list"
  certificates :: "certificate list"

text \<open>
  \<open>completeDonation\<close>. The donation is loaded with its donor and its blood request populated;
  a reference to a deleted document populates as \<open>null\<close>, and the first property access on it
  throws a TypeError that the handler's \<open>catch\<close> answers with status 500. What was saved before
  the throw stays saved. \<open>updateStatus\<close> ends in \<open>save()\<close>, which runs the validator of
  \<open>requiredBy\<close> (after the current time) again: for a request whose deadline has passed the
  save throws and the request stays as it was.
\<close>

definition completeDonation :: "(int \<Rightarrow> date \<Rightarrow> date) \<Rightarrow> date \<Rightarrow> db \<Rightarrow> objectId \<Rightarrow> db \<times> donation response" where
  "completeDonation plusDays now s i =
     (case findById donation_id i (donations s) of
        None \<Rightarrow> (s, fail 404 ''Donation not found'')
      | Some dn \<Rightarrow>
          if donation_status dn = ''completed'' then (s, fail 400 ''Donation is already completed'')
          else
            let dn' = dn\<lparr>donation_status := ''completed''\<rparr>;
                s1 = s\<lparr>donations := save donation_id dn' (donations s)\<rparr>
            in (case findById donor_id (donation_donor dn) (donors s) of
                  None \<Rightarrow> (s1, fail 500 ''Server error while completing donation'')
                | Some d \<Rightarrow>
                    let d' = updateAvailability plusDays now
                               (d\<lparr>lastDonationDate := Some (donationDate dn),
                                  donationCount := donationCount d + 1,
                                  totalVolumeDonated := totalVolumeDonated d + volumeDonated dn\<rparr>);
                        s2 = s1\<lparr>donors := save donor_id d' (donors s1)\<rparr>
                    in (case findById request_id (donation_bloodRequest dn) (requests s) of
                          None \<Rightarrow> (s2, fail 500 ''Server error while completing donation'')
                        | Some r \<Rightarrow>
                            let r' = updateStatus now (r\<lparr>unitsFulfilled := unitsFulfilled r + 1\<rparr>);
                                s3 = s2\<lparr>requests := save request_id r' (requests s2)\<rparr>
                            in if now < requiredBy r'
                               then (s3, ok 200 ''Donation completed successfully'' dn')
                               else (s2, fail 500 ''Server error while completing donation''))))"

text \<open>
  \<open>generateCertificate\<close>. \<open>Certificate.create\<close> (schema validation, the pre-save hook that
  draws \<open>certificateId\<close> and \<open>verificationCode\<close> from the clock and \<open>Math.random\<close>, and the
  unique indexes) is the parameter \<open>create\<close>: it gets the collection and the document built
  by the handler and answers the stored document or the error it throws. \<open>sent\<close> tells whether
  the certificate email went out.
\<close>

definition generateQRCode :: "certificate \<Rightarrow> certificate" where
  "generateQRCode c = c\<lparr>qrCode_data := Some (certificateId c, verificationCode c)\<rparr>"

definition not_completed_safe :: string where
  "not_completed_safe = ''Certificate can only be generated for completed and safe donations''"

definition already_exists :: string where
  "already_exists = ''Certificate already exists for this donation''"

definition new_certificate :: "date \<Rightarrow> user \<Rightarrow> donation \<Rightarrow> certificate" where
  "new_certificate now u dn =
     \<lparr>certificateId = [],
      certificate_donor = user_id u,
      certificate_donation = donation_id dn,
      title = ''Blood Donation Certificate'',
      description = ''This certificate is awarded to '' @ fullName u @ '' for their generous blood donation.'',
      details_donationDate = donationDate dn,
      details_bloodType = donation_bloodType dn,
      details_volumeDonated = volumeDonated dn,
      details_center_name = center_name dn,
      details_center_city = center_city dn,
      details_center_state = center_state dn,
      qrCode_data = None,
      verificationCode = [],
      certificate_status = ''issued'',
      generatedAt = now\<rparr>"

definition generateCertificate :: "(certificate list \<Rightarrow> certificate \<Rightarrow> error + certificate) \<Rightarrow> bool \<Rightarrow> date
    \<Rightarrow> db \<Rightarrow> user \<Rightarrow> objectId \<Rightarrow> db \<times> log_entry list \<times> certificate response" where
  "generateCertificate create sent now s u i =
     (case findById donation_id i (donations s) of
        None \<Rightarrow> (s, [], fail 404 ''Donation not found'')
      | Some dn \<Rightarrow>
          (case findById donor_id (donation_donor dn) (donors s) of
             None \<Rightarrow> (s, [HandlerError ''Generate certificate error:''],
                       fail 500 ''Server error while generating certificate'')
           | Some d \<Rightarrow>
               if donor_user d \<noteq> user_id u
               then (s, [], fail 403 ''Not authorized to generate certificate for this donation'')
               else if donation_status dn \<noteq> ''completed'' \<or> overallResult dn \<noteq> ''safe''
               then (s, [], fail 400 not_completed_safe)
               else
                 (case find (\<lambda>c. certificate_donation c = donation_id dn) (certificates s) of
                    Some c \<Rightarrow> (s, [], fail 400 already_exists)
                  | None \<Rightarrow>
                      (case create (certificates s) (new_certificate now u dn) of
                         Inl e \<Rightarrow> (s, [HandlerError ''Generate certificate error:''],
                                   fail 500 ''Server error while generating certificate'')
                       | Inr c \<Rightarrow>
                           let c' = generateQRCode c;
                               dn' = dn\<lparr>certificateGenerated := True,
                                        certification_certificateId := Some (certificateId c'),
                                        certification_generatedAt := Some now\<rparr>;
                               s' = s\<lparr>certificates := certificates s @ [c'],
                                      donations := save donation_id dn' (donations s)\<rparr>
                           in (s', if sent then [] else [FailedToSendCertificateEmail],
                               ok 201 ''Certificate generated successfully and email sent'' c')))))"

text \<open>
  \<open>Certificate.verifyCertificate\<close> finds one certificate with the code and status \<open>issued\<close>;
  \<open>verifyCertificate\<close> answers with the reduced view. The donor is populated, and reading
  \<open>fullName\<close> of a donor that populated as \<open>null\<close> throws.
\<close>

record verification =
  isValid :: bool
  v_certificateId :: string
  donorName :: string
  v_donationDate :: date
  v_bloodType :: string
  v_volumeDonated :: int
  donationCenter :: string
  issuedDate :: date
  v_status :: string

definition Certificate_verifyCertificate :: "db \<Rightarrow> string \<Rightarrow> (certificate \<times> user option) option" where
  "Certificate_verifyCertificate s vcode =
     (case find (\<lambda>c. verificationCode c = vcode \<and> certificate_status c = ''issued'') (certificates s) of
        None \<Rightarrow> None
      | Some c \<Rightarrow> Some (c, findById user_id (certificate_donor c) (users s)))"

definition not_found_or_invalid :: string where
  "not_found_or_invalid = ''Certificate not found or invalid verification code''"

definition verifyCertificate :: "db \<Rightarrow> string \<Rightarrow> verification response" where
  "verifyCertificate s vcode =
     (case Certificate_verifyCertificate s vcode of
        None \<Rightarrow> fail 404 not_found_or_invalid
      | Some (c, None) \<Rightarrow> fail 500 ''Server error during certificate verification''
      | Some (c, Some u) \<Rightarrow>
          ok 200 ''Certificate verified successfully''
            \<lparr>isValid = True,
             v_certificateId = certificateId c,
             donorName = fullName u,
             v_donationDate = details_donationDate c,
             v_bloodType = details_bloodType c,
             v_volumeDonated = details_volumeDonated c,
             donationCenter = details_center_name c,
             issuedDate = generatedAt c,
             v_status = certificate_status c\<rparr>)"

section \<open>Blood request controller\<close>

text \<open>
  The body of \<open>POST /api/requests\<close>, by the paths of the schema that the model keeps.
  \<open>BloodRequest.create\<close> fills the defaults, validates (enums, \<open>unitsNeeded\<close> 1 to 10,
  \<open>requiredBy\<close> after the current time; the geospatial index refuses a point out of range)
  and stores the document under the fresh id \<open>oid\<close>.
\<close>

record request_body =
  b_requester :: "objectId option"
  b_bloodType :: string
  b_unitsNeeded :: int
  b_urgency :: "string option"
  b_requiredBy :: date
  b_location :: coords
  b_status :: "string option"
  b_unitsFulfilled :: "int option"

definition bloodTypes :: "string list" where
  "bloodTypes = [''A+'', ''A-'', ''B+'', ''B-'', ''AB+'', ''AB-'', ''O+'', ''O-'']"

definition valid_request :: "date \<Rightarrow> bloodRequest \<Rightarrow> bool" where
  "valid_request now r =
     (request_bloodType r \<in> set bloodTypes \<and>
      1 \<le> unitsNeeded r \<and> unitsNeeded r \<le> 10 \<and>
      urgency r \<in> set [''low'', ''medium'', ''high'', ''critical''] \<and>
      now < requiredBy r \<and>
      request_status r \<in> set [''active'', ''partially_fulfilled'', ''fulfilled'', ''expired'', ''cancelled''] \<and>
      valid_point (request_location r))"

definition BloodRequest_create :: "date \<Rightarrow> objectId \<Rightarrow> objectId \<Rightarrow> request_body \<Rightarrow> error + bloodRequest" where
  "BloodRequest_create now oid uid b =
     (let r = \<lparr>request_id = oid,
                requester = (case b_requester b of None \<Rightarrow> uid | Some x \<Rightarrow> x),
                request_bloodType = b_bloodType b,
                unitsNeeded = b_unitsNeeded b,
                urgency = (case b_urgency b of None \<Rightarrow> ''medium'' | Some x \<Rightarrow> x),
                requiredBy = b_requiredBy b,
                request_location = b_location b,
                request_status = (case b_status b of None \<Rightarrow> ''active'' | Some x \<Rightarrow> x),
                unitsFulfilled = (case b_unitsFulfilled b of None \<Rightarrow> 0 | Some x \<Rightarrow> x)\<rparr>
      in if valid_request now r then Inr r else Inl ValidationError)"

text \<open>
  Email (utils/emailService.js). \<open>transport\<close> tells whether the mail transport delivers to
  an address. \<open>sendEmail\<close> writes its own error lines before it rethrows.
  \<open>sendDonorNotification\<close> reads \<open>donor.user.fullName\<close> first, which throws when the donor's
  user populated as \<open>null\<close>.
\<close>

definition sendEmail :: "(string \<Rightarrow> bool) \<Rightarrow> string \<Rightarrow> (error + unit) \<times> log_entry list" where
  "sendEmail transport addr =
     (if transport addr then (Inr (), []) else (Inl EmailError, [EmailSendingFailed addr]))"

definition sendDonorNotification :: "(string \<Rightarrow> bool) \<Rightarrow> donor \<times> user option
    \<Rightarrow> (error + unit) \<times> log_entry list" where
  "sendDonorNotification transport du =
     (case snd du of None \<Rightarrow> (Inl TypeError, []) | Some u \<Rightarrow> sendEmail transport (email u))"

text \<open>
  One element of \<open>notificationPromises\<close>: the send with its \<open>.catch\<close> handler. The handler
  builds its line from \<open>donor.user.email\<close>; with a \<open>null\<close> user it throws before it writes, and
  \<open>Promise.allSettled\<close> absorbs the rejection. The sends run concurrently; the model lists
  their lines in the order of the donors.
\<close>

definition notify :: "(string \<Rightarrow> bool) \<Rightarrow> donor \<times> user option \<Rightarrow> log_entry list" where
  "notify transport du =
     (case sendDonorNotification transport du of
        (Inr _, l) \<Rightarrow> l
      | (Inl e, l) \<Rightarrow>
          l @ (case snd du of None \<Rightarrow> [] | Some u \<Rightarrow> [FailedToNotifyDonor (email u)]))"

text \<open>
  \<open>createBloodRequest\<close> answers with the new store, the console lines, the donors a
  notification was dispatched to, and the response.
\<close>

definition createBloodRequest :: "(coords \<Rightarrow> coords \<Rightarrow> real) \<Rightarrow> (string \<Rightarrow> bool) \<Rightarrow> date \<Rightarrow> objectId
    \<Rightarrow> db \<Rightarrow> user \<Rightarrow> request_body
    \<Rightarrow> db \<times> log_entry list \<times> (donor \<times> user option) list \<times> bloodRequest response" where
  "createBloodRequest geo transport now oid s u body =
     (case BloodRequest_create now oid (user_id u) body of
        Inl e \<Rightarrow> (s, [HandlerError ''Create blood request error:''], [],
                  fail 500 ''Server error while creating blood request'')
      | Inr r \<Rightarrow>
          let s' = s\<lparr>requests := requests s @ [r]\<rparr>;
              confirmation =
                (case sendEmail transport (email u) of
                   (Inr _, l) \<Rightarrow> l
                 | (Inl e, l) \<Rightarrow> l @ [FailedToSendConfirmationEmail]);
              notified =
                (case Donor_findNearby geo (users s') (donors s') (request_location r) 50000
                        (Some (request_bloodType r)) of
                   Inl e \<Rightarrow> []
                 | Inr ds \<Rightarrow> take 20 ds);
              notification =
                (case Donor_findNearby geo (users s') (donors s') (request_location r) 50000
                        (Some (request_bloodType r)) of
                   Inl e \<Rightarrow> [FailedToNotifyDonors]
                 | Inr ds \<Rightarrow> concat (map (notify transport) (take 20 ds)))
          in (s', confirmation @ notification, notified,
              ok 201 ''Blood request created successfully'' r))"

section \<open>Blood inventory model (models/BloodInventory.js)\<close>

record bloodInventory =
  inventory_bloodType :: string
  unitsAvailable :: int
  unitsReserved :: int
  minimumThreshold :: int
  maxCapacity :: int
  expiryDate :: date
  collectionDate :: date
  inventory_status :: string
  inventory_notes :: string

text \<open>The pre-save middleware.\<close>

definition pre_save :: "date \<Rightarrow> bloodInventory \<Rightarrow> bloodInventory" where
  "pre_save now i =
     (if expiryDate i \<le> now then i\<lparr>inventory_status := ''Expired''\<rparr>
      else if unitsAvailable i = 0 then i\<lparr>inventory_status := ''Out of Stock''\<rparr>
      else if unitsAvailable i \<le> minimumThreshold i then i\<lparr>inventory_status := ''Low Stock''\<rparr>
      else if 0 < unitsReserved i then i\<lparr>inventory_status := ''Reserved''\<rparr>
      else i\<lparr>inventory_status := ''Available''\<rparr>)"

text \<open>
  Saving a new entry (\<open>BloodInventory.create\<close>): the schema validators of the modelled
  paths, then the pre-save middleware.
\<close>

definition valid_inventory :: "date \<Rightarrow> bloodInventory \<Rightarrow> bool" where
  "valid_inventory now i =
     (inventory_bloodType i \<in> set bloodTypes \<and>
      0 \<le> unitsAvailable i \<and> 0 \<le> unitsReserved i \<and> 0 \<le> minimumThreshold i \<and>
      1 \<le> maxCapacity i \<and> now < expiryDate i \<and> collectionDate i \<le> now \<and>
      inventory_status i \<in> set [''Available'', ''Low Stock'', ''Out of Stock'', ''Expired'', ''Reserved''])"

definition BloodInventory_create :: "date \<Rightarrow> bloodInventory \<Rightarrow> error + bloodInventory" where
  "BloodInventory_create now i = (if valid_inventory now i then Inr (pre_save now i) else Inl ValidationError)"

section \<open>The compatibility table of the specification\<close>

text \<open>
  The table as the specification prints it, donor type to compatible recipient types, to be
  compared with \<open>getCompatibleBloodTypes\<close>.
\<close>

definition compatibility_table_spec :: "string \<Rightarrow> string list" where
  "compatibility_table_spec T =
     (if T = ''O-'' then [''O-'', ''O+'', ''A-'', ''A+'', ''B-'', ''B+'', ''AB-'', ''AB+'']
      else if T = ''O+'' then [''O+'', ''A+'', ''B+'', ''AB+'']
      else if T = ''A-'' then [''A-'', ''A+'', ''AB-'', ''AB+'']
      else if T = ''A+'' then [''A+'', ''AB+'']
      else if T = ''B-'' then [''B-'', ''B+'', ''AB-'', ''AB+'']
      else if T = ''B+'' then [''B+'', ''AB+'']
      else if T = ''AB-'' then [''AB-'', ''AB+'']
      else if T = ''AB+'' then [''AB+'']
      else [])"

section \<open>Example data\<close>

text \<open>
  Concrete documents for evaluating the model. \<open>planar\<close> is a stand-in distance: about 111 km
  for each degree of longitude and of latitude.
\<close>

definition planar :: "coords \<Rightarrow> coords \<Rightarrow> real" where
  "planar p q = 111000 * (\<bar>fst p - fst q\<bar> + \<bar>snd p - snd q\<bar>)"

text \<open>The calendar arithmetic of a server whose local time is UTC.\<close>

definition days :: "int \<Rightarrow> int" where
  "days n = n * 86400000"

definition utc :: "int \<Rightarrow> date \<Rightarrow> date" where
  "utc n t = t + days n"

definition example_user :: "objectId \<Rightarrow> string \<Rightarrow> string \<Rightarrow> user" where
  "example_user i n m = \<lparr>user_id = i, fullName = n, email = m, role = ''user''\<rparr>"

definition example_donor :: "objectId \<Rightarrow> objectId \<Rightarrow> string \<Rightarrow> bool \<Rightarrow> date option \<Rightarrow> donor" where
  "example_donor i u bt av l =
     \<lparr>donor_id = i, donor_user = u, donor_bloodType = bt, age = 30, weight = 70,
      lastDonationDate = l, stored_isAvailable = Stored av, donor_location = (77.2, 28.5),
      donationCount = 0, totalVolumeDonated = 0\<rparr>"

definition example_request :: "objectId \<Rightarrow> string \<Rightarrow> string \<Rightarrow> date \<Rightarrow> string \<Rightarrow> bloodRequest" where
  "example_request i bt u t st =
     \<lparr>request_id = i, requester = 1, request_bloodType = bt, unitsNeeded = 2, urgency = u,
      requiredBy = t, request_location = (77.2, 28.5), request_status = st, unitsFulfilled = 0\<rparr>"

definition example_donation :: "objectId \<Rightarrow> objectId \<Rightarrow> objectId \<Rightarrow> date \<Rightarrow> string \<Rightarrow> string \<Rightarrow> donation" where
  "example_donation i d r t st res =
     \<lparr>donation_id = i, donation_donor = d, donation_bloodRequest = r, donationDate = t,
      volumeDonated = 450, donation_bloodType = ''O-'', center_name = ''City Blood Bank'',
      center_city = ''Delhi'', center_state = ''Delhi'', donation_status = st, overallResult = res,
      certificateGenerated = False, certification_certificateId = None,
      certification_generatedAt = None\<rparr>"

definition example_certificate :: "string \<Rightarrow> objectId \<Rightarrow> objectId \<Rightarrow> string \<Rightarrow> string \<Rightarrow> certificate" where
  "example_certificate cid u d vcode st =
     \<lparr>certificateId = cid, certificate_donor = u, certificate_donation = d,
      title = ''Blood Donation Certificate'', description = ''For a generous blood donation.'',
      details_donationDate = 1000, details_bloodType = ''O-'', details_volumeDonated = 450,
      details_center_name = ''City Blood Bank'', details_center_city = ''Delhi'',
      details_center_state = ''Delhi'', qrCode_data = None, verificationCode = vcode,
      certificate_status = st, generatedAt = 2000\<rparr>"

definition example_inventory :: "int \<Rightarrow> string \<Rightarrow> bloodInventory" where
  "example_inventory reserved n =
     \<lparr>inventory_bloodType = ''O-'', unitsAvailable = 12, unitsReserved = reserved,
      minimumThreshold = 5, maxCapacity = 50, expiryDate = 9000, collectionDate = 100,
      inventory_status = ''Available'', inventory_notes = n\<rparr>"

definition example_body :: "string \<Rightarrow> date \<Rightarrow> request_body" where
  "example_body bt t =
     \<lparr>b_requester = None, b_bloodType = bt, b_unitsNeeded = 2, b_urgency = Some ''critical'',
      b_requiredBy = t, b_location = (77.21, 28.57), b_status = None, b_unitsFulfilled = None\<rparr>"

definition example_db :: db where
  "example_db =
     \<lparr>users = [example_user 1 ''Asha'' ''asha@example.org'', example_user 2 ''Ravi'' ''ravi@example.org''],
      donors = [example_donor 10 1 ''O-'' True None],
      requests = [example_request 20 ''A+'' ''high'' 9000000000 ''active''],
      donations = [example_donation 30 10 20 1000 ''completed'' ''pending''],
      certificates = []\<rparr>"

section \<open>Queries: shared facts\<close>

lemma near_result:
  "near geo loc p m xs = Inr ys \<Longrightarrow> set ys = {x \<in> set xs. geo p (loc x) \<le> m}"
  by (auto simp: near_def split: if_splits)

lemma near_nearest_first:
  "near geo loc p m xs = Inr ys \<Longrightarrow> sorted (map (\<lambda>x. geo p (loc x)) ys)"
  by (auto simp: near_def split: if_splits)

lemma fst_populate: "map fst (populate us ref xs) = xs"
  by (simp add: populate_def comp_def)

lemma set_insert_sorted: "set (insert_sorted x xs) = insert x (set xs)"
  by (induction xs) auto

lemma set_sort_requests: "set (sort_requests xs) = set xs"
  by (induction xs) (auto simp: sort_requests_def set_insert_sorted)

lemma BloodRequest_findNearby_set:
  assumes "BloodRequest_findNearby geo now us rs p m bt = Inr res"
  shows "fst ` set res =
         {r \<in> set rs. geo p (request_location r) \<le> m \<and> request_matches now bt r}"
proof -
  obtain ns where ns: "near geo request_location p m rs = Inr ns"
    and res: "res = populate us requester (sort_requests (filter (request_matches now bt) ns))"
    using assms by (auto simp: BloodRequest_findNearby_def split: sum.splits)
  have "fst ` set res = set (map fst res)" by simp
  also have "\<dots> = set (filter (request_matches now bt) ns)"
    unfolding res fst_populate by (simp add: set_sort_requests)
  finally show ?thesis using near_result[OF ns] by auto
qed

lemma table_matches_spec:
  "T \<in> set bloodTypes \<Longrightarrow> getCompatibleBloodTypes T = compatibility_table_spec T"
  by (auto simp: bloodTypes_def getCompatibleBloodTypes_def compatibility_table_spec_def)

section \<open>Matching engine\<close>

text \<open>
  C1. For each of the eight blood types \<open>T\<close>, the row of \<open>getCompatibleBloodTypes\<close> is the row
  of the specification's table; a search for requests with donor type \<open>T\<close> returns only
  requests whose blood type is in that row, and a request with a blood type in the row that
  passes the other filters (status, deadline, radius) is returned.
\<close>

theorem findNearbyRequests_compatible_types:
  assumes "T \<in> set bloodTypes"
    and "BloodRequest_findNearby geo now us rs p m (Some T) = Inr res"
  shows "getCompatibleBloodTypes T = compatibility_table_spec T \<and>
         (\<forall>r \<in> fst ` set res. request_bloodType r \<in> set (compatibility_table_spec T)) \<and>
         (\<forall>r \<in> set rs.
            request_bloodType r \<in> set (compatibility_table_spec T) \<and>
            (request_status r = ''active'' \<or> request_status r = ''partially_fulfilled'') \<and>
            now < requiredBy r \<and> geo p (request_location r) \<le> m
            \<longrightarrow> r \<in> fst ` set res)"
proof -
  have ne: "T \<noteq> []" using assms(1) by (auto simp: bloodTypes_def)
  have tab: "getCompatibleBloodTypes T = compatibility_table_spec T"
    using assms(1) by (rule table_matches_spec)
  show ?thesis
    unfolding BloodRequest_findNearby_set[OF assms(2)]
    using ne tab by (auto simp: request_matches_def)
qed

theorem findNearbyRequests_compatible_types_witness:
  "''AB+'' \<in> set bloodTypes \<and>
   BloodRequest_findNearby planar 1000 []
     [example_request 1 ''AB+'' ''high'' 2000 ''active'', example_request 2 ''O-'' ''high'' 2000 ''active'']
     (77.21, 28.57) 50000 (Some ''AB+'')
     = Inr [(example_request 1 ''AB+'' ''high'' 2000 ''active'', None)] \<and>
   getCompatibleBloodTypes ''AB+'' = [''AB+''] \<and>
   example_request 2 ''O-'' ''high'' 2000 ''active''
     \<notin> fst ` set [(example_request 1 ''AB+'' ''high'' 2000 ''active'', None :: user option)]"
proof -
  have a: "''AB+'' \<in> set bloodTypes" by (simp add: bloodTypes_def)
  have b: "BloodRequest_findNearby planar 1000 []
     [example_request 1 ''AB+'' ''high'' 2000 ''active'', example_request 2 ''O-'' ''high'' 2000 ''active'']
     (77.21, 28.57) 50000 (Some ''AB+'')
     = Inr [(example_request 1 ''AB+'' ''high'' 2000 ''active'', None)]"
    by (simp add: BloodRequest_findNearby_def near_def valid_point_def planar_def example_request_def
        request_matches_def getCompatibleBloodTypes_def sort_requests_def populate_def findById_def)
  have c: "compatibility_table_spec ''AB+'' = [''AB+'']"
    by (simp add: compatibility_table_spec_def)
  from findNearbyRequests_compatible_types[OF a b] a b c show ?thesis
    by (simp add: example_request_def)
qed

text \<open>
  C6. Every request returned by a search for nearby requests has status \<open>active\<close> or
  \<open>partially_fulfilled\<close> and a \<open>requiredBy\<close> strictly after the time of the query; a request
  with another status or with \<open>requiredBy\<close> not after that time is never returned, whatever
  its distance and blood type.
\<close>

theorem findNearbyRequests_eligible_only:
  assumes "BloodRequest_findNearby geo now us rs p m bt = Inr res"
  shows "(\<forall>r \<in> fst ` set res.
            (request_status r = ''active'' \<or> request_status r = ''partially_fulfilled'') \<and>
            now < requiredBy r) \<and>
         (\<forall>r \<in> set rs.
            (request_status r \<noteq> ''active'' \<and> request_status r \<noteq> ''partially_fulfilled'') \<or>
            requiredBy r \<le> now
            \<longrightarrow> r \<notin> fst ` set res)"
  unfolding BloodRequest_findNearby_set[OF assms]
  by (auto simp: request_matches_def)

theorem findNearbyRequests_eligible_only_witness:
  "BloodRequest_findNearby planar 1000 []
     [example_request 1 ''O-'' ''high'' 2000 ''active'', example_request 2 ''O-'' ''high'' 2000 ''fulfilled'',
      example_request 3 ''O-'' ''high'' 900 ''active'']
     (77.21, 28.57) 50000 None
     = Inr [(example_request 1 ''O-'' ''high'' 2000 ''active'', None)] \<and>
   request_status (example_request 1 ''O-'' ''high'' 2000 ''active'') = ''active'' \<and>
   1000 < requiredBy (example_request 1 ''O-'' ''high'' 2000 ''active'')"
proof -
  have b: "BloodRequest_findNearby planar 1000 []
     [example_request 1 ''O-'' ''high'' 2000 ''active'', example_request 2 ''O-'' ''high'' 2000 ''fulfilled'',
      example_request 3 ''O-'' ''high'' 900 ''active'']
     (77.21, 28.57) 50000 None
     = Inr [(example_request 1 ''O-'' ''high'' 2000 ''active'', None)]"
    by (simp add: BloodRequest_findNearby_def near_def valid_point_def planar_def example_request_def
        request_matches_def sort_requests_def populate_def findById_def)
  from findNearbyRequests_eligible_only[OF b] b show ?thesis
    by (simp add: example_request_def)
qed

text \<open>
  The order of the result: each request comes before every later one in the order of
  \<open>sort_before\<close>, which compares \<open>urgency\<close> as a string, descending, and then \<open>requiredBy\<close>,
  ascending.
\<close>

lemma sort_before_total: "\<not> sort_before x y \<Longrightarrow> sort_before y x"
  by (auto simp: sort_before_def)

lemma sort_before_trans: "sort_before x y \<Longrightarrow> sort_before y z \<Longrightarrow> sort_before x z"
  by (auto simp: sort_before_def)

lemma sorted_insert_sorted:
  "sorted_wrt sort_before xs \<Longrightarrow> sorted_wrt sort_before (insert_sorted x xs)"
proof (induction xs)
  case Nil
  then show ?case by simp
next
  case (Cons y ys)
  show ?case
  proof (cases "sort_before x y")
    case True
    then have "\<forall>z \<in> set ys. sort_before x z"
      using Cons.prems sort_before_trans by auto
    with True Cons.prems show ?thesis by simp
  next
    case False
    then have "sort_before y x" by (rule sort_before_total)
    with False Cons show ?thesis by (auto simp: set_insert_sorted)
  qed
qed

lemma sorted_sort_requests: "sorted_wrt sort_before (sort_requests xs)"
  by (induction xs) (simp_all add: sort_requests_def sorted_insert_sorted)

lemma BloodRequest_findNearby_sorted:
  "BloodRequest_findNearby geo now us rs p m bt = Inr res \<Longrightarrow>
   sorted_wrt sort_before (map fst res)"
  by (auto simp: BloodRequest_findNearby_def fst_populate sorted_sort_requests split: sum.splits)

lemma urgency_string_order:
  "(''critical'' :: string) < ''high'' \<and> (''high'' :: string) < ''low'' \<and> (''low'' :: string) < ''medium''"
  by simp

text \<open>
  C4. The result of a search for nearby requests is to be ordered by descending urgency,
  \<open>critical\<close> before \<open>high\<close> before \<open>medium\<close> before \<open>low\<close>, and by ascending \<open>requiredBy\<close>
  among equal urgencies. The second key is as stated (\<open>BloodRequest_findNearby_sorted\<close>); the
  first is not: with one \<open>critical\<close> and one \<open>medium\<close> request, both eligible and in range,
  the search returns the \<open>medium\<close> request first, since as strings \<open>medium\<close> is the greatest
  of the four values and \<open>critical\<close> the least.
\<close>

theorem findNearbyRequests_medium_before_critical:
  "BloodRequest_findNearby planar 1000 []
     [example_request 1 ''O-'' ''critical'' 2000 ''active'', example_request 2 ''O-'' ''medium'' 2000 ''active'']
     (77.21, 28.57) 50000 None
   = Inr [(example_request 2 ''O-'' ''medium'' 2000 ''active'', None),
          (example_request 1 ''O-'' ''critical'' 2000 ''active'', None)]"
  by (simp add: BloodRequest_findNearby_def near_def valid_point_def planar_def example_request_def
      request_matches_def sort_requests_def sort_before_def populate_def findById_def)

lemma Donor_findNearby_result:
  assumes "Donor_findNearby geo us ds p m bt = Inr res"
  shows "fst ` set res \<subseteq>
         {d \<in> set ds. stored_isAvailable d = Stored True \<and> isAvailable d \<and>
                      geo p (donor_location d) \<le> m \<and>
                      (\<forall>t. bt = Some t \<and> t \<noteq> [] \<longrightarrow> donor_bloodType d = t)}"
proof -
  obtain ns where ns: "near geo donor_location p m ds = Inr ns"
    and res: "map fst res =
              filter (\<lambda>d. stored_isAvailable d = Stored True \<and>
                          (case bt of
                             None \<Rightarrow> True
                           | Some t \<Rightarrow> if t = [] then True else donor_bloodType d = t)) ns"
    using assms by (auto simp: Donor_findNearby_def fst_populate split: sum.splits)
  have "fst ` set res = set (map fst res)" by simp
  then show ?thesis unfolding res using near_result[OF ns] by (auto simp: isAvailable_def)
qed

text \<open>
  C5. Every donor returned by a search for nearby donors is available and within the radius,
  and has exactly the requested blood type when one is given; the row of compatible types
  plays no part.
\<close>

theorem findNearbyDonors_filters:
  assumes "Donor_findNearby geo us ds p m bt = Inr res"
  shows "\<forall>d \<in> fst ` set res.
           stored_isAvailable d = Stored True \<and>
           isAvailable d \<and> geo p (donor_location d) \<le> m \<and>
           (\<forall>t. bt = Some t \<and> t \<noteq> [] \<longrightarrow> donor_bloodType d = t)"
  using Donor_findNearby_result[OF assms] by blast

theorem findNearbyDonors_filters_witness:
  "Donor_findNearby planar []
     [example_donor 10 1 ''A+'' True None, example_donor 11 2 ''AB+'' True None,
      example_donor 12 3 ''A+'' False None]
     (77.21, 28.57) 50000 (Some ''A+'')
     = Inr [(example_donor 10 1 ''A+'' True None, None)] \<and>
   stored_isAvailable (example_donor 10 1 ''A+'' True None) = Stored True \<and>
   isAvailable (example_donor 10 1 ''A+'' True None) \<and>
   planar (77.21, 28.57) (donor_location (example_donor 10 1 ''A+'' True None)) \<le> 50000 \<and>
   donor_bloodType (example_donor 10 1 ''A+'' True None) = ''A+''"
proof -
  have b: "Donor_findNearby planar []
     [example_donor 10 1 ''A+'' True None, example_donor 11 2 ''AB+'' True None,
      example_donor 12 3 ''A+'' False None]
     (77.21, 28.57) 50000 (Some ''A+'')
     = Inr [(example_donor 10 1 ''A+'' True None, None)]"
    by (simp add: Donor_findNearby_def near_def valid_point_def planar_def example_donor_def
        populate_def findById_def)
  from findNearbyDonors_filters[OF b] b show ?thesis
    by (simp add: example_donor_def planar_def isAvailable_def)
qed

lemma getNearbyDonors_filters:
  assumes "data (getNearbyDonors parseFloat parseInt geo us ds q) = Some res"
    and "longitude q = Some lon" and "parseFloat lon = Some x"
    and "latitude q = Some lat" and "parseFloat lat = Some y"
    and "(case maxDistance q of None \<Rightarrow> Some 50000 | Some s \<Rightarrow> parseInt s) = Some m"
  shows "\<forall>d \<in> fst ` set res.
           stored_isAvailable d = Stored True \<and>
           isAvailable d \<and> geo (x, y) (donor_location d) \<le> m \<and>
           (\<forall>t. bloodType q = Some t \<and> t \<noteq> [] \<longrightarrow> donor_bloodType d = t)"
proof -
  have "Donor_findNearby geo us ds (x, y) m (bloodType q) = Inr res"
    using assms
    by (auto simp: getNearbyDonors_def fail_def ok_def split: option.splits if_splits sum.splits)
  from Donor_findNearby_result[OF this] show ?thesis by blast
qed
section \<open>Donor availability\<close>

lemma find_in_set: "find P xs = Some x \<Longrightarrow> x \<in> set xs \<and> P x"
  by (auto simp: find_Some_iff)

lemma findById_ident: "findById ident i xs = Some x \<Longrightarrow> x \<in> set xs \<and> ident x = i"
  unfolding findById_def by (rule find_in_set)

lemma findById_save:
  "findById ident i xs = Some x \<Longrightarrow> ident y = i \<Longrightarrow> findById ident i (save ident y xs) = Some y"
  unfolding findById_def save_def by (induction xs) (auto split: if_splits)

lemma list_all2_save:
  "list_all2 P (save ident y xs) xs \<longleftrightarrow> (\<forall>x \<in> set xs. P (if ident x = ident y then y else x) x)"
  by (simp add: save_def list_all2_map1 list_all2_same)

lemma same_ident_same_doc:
  "distinct (map ident xs) \<Longrightarrow> x \<in> set xs \<Longrightarrow> y \<in> set xs \<Longrightarrow> ident x = ident y \<Longrightarrow> x = y"
  by (auto simp: distinct_map dest: inj_onD)

lemma castBoolean_True_truthy: "castBoolean v = Inr (Stored True) \<Longrightarrow> truthy v"
  by (cases v) (auto split: if_splits)

lemma castBoolean_Unset: "castBoolean v = Inr Unset \<Longrightarrow> v = JUndefined"
  by (cases v) (auto split: if_splits)

lemma eligible_is_available: "isEligibleToDonate plusDays now d \<Longrightarrow> isAvailable d"
  by (auto simp: isEligibleToDonate_def split: if_splits)

lemma updateDonorAvailability_rejected:
  "find (\<lambda>d. donor_user d = uid) ds = Some d \<Longrightarrow> truthy v \<Longrightarrow> \<not> isEligibleToDonate plusDays now d \<Longrightarrow>
   updateDonorAvailability plusDays now ds uid v = (ds, fail 400 must_wait)"
  by (simp add: updateDonorAvailability_def)

lemma updateDonorAvailability_accepted:
  "find (\<lambda>d. donor_user d = uid) ds = Some d \<Longrightarrow> \<not> truthy v \<or> isEligibleToDonate plusDays now d \<Longrightarrow>
   fst (updateDonorAvailability plusDays now ds uid v) =
     (case castBoolean v of Inl e \<Rightarrow> ds | Inr f \<Rightarrow> save donor_id (d\<lparr>stored_isAvailable := f\<rparr>) ds)"
  by (auto simp: updateDonorAvailability_def split: sum.splits)

text \<open>
  A value that the handler accepts and that is not \<open>undefined\<close> is written as available only
  over a donor who is available.
\<close>

lemma accepted_value_keeps_unavailable:
  assumes "castBoolean v = Inr f" and "v \<noteq> JUndefined"
    and "\<not> truthy v \<or> isEligibleToDonate plusDays now d"
    and "isAvailable (d\<lparr>stored_isAvailable := f\<rparr>)"
  shows "isAvailable d"
proof -
  have "f \<noteq> Unset" using assms(1,2) castBoolean_Unset by blast
  with assms(4) have "f = Stored True"
    by (cases f) (auto simp: isAvailable_def)
  with assms(1) have "truthy v" by (simp add: castBoolean_True_truthy)
  with assms(3) show ?thesis by (auto dest: eligible_is_available)
qed

lemma updateDonorAvailability_pointwise:
  assumes dist: "distinct (map donor_id ds)" and v: "v \<noteq> JUndefined"
  shows "list_all2 (\<lambda>new old. donor_id new = donor_id old \<and> (isAvailable new \<longrightarrow> isAvailable old))
           (fst (updateDonorAvailability plusDays now ds uid v)) ds"
proof (cases "find (\<lambda>d. donor_user d = uid) ds")
  case None
  then show ?thesis by (simp add: updateDonorAvailability_def list_all2_same)
next
  case (Some d)
  have d: "d \<in> set ds" using Some by (auto dest: find_in_set)
  show ?thesis
  proof (cases "truthy v \<and> \<not> isEligibleToDonate plusDays now d")
    case True
    with Some show ?thesis by (simp add: updateDonorAvailability_rejected list_all2_same)
  next
    case False
    then have acc: "\<not> truthy v \<or> isEligibleToDonate plusDays now d" by blast
    show ?thesis
    proof (cases "castBoolean v")
      case (Inl e)
      then show ?thesis by (simp add: updateDonorAvailability_accepted[OF Some acc] list_all2_same)
    next
      case (Inr f)
      have "isAvailable (d\<lparr>stored_isAvailable := f\<rparr>) \<longrightarrow> isAvailable x"
        if "x \<in> set ds" and "donor_id x = donor_id d" for x
      proof -
        have "x = d" by (rule same_ident_same_doc[OF dist that(1) d that(2)])
        then show ?thesis using accepted_value_keeps_unavailable[OF Inr v acc] by blast
      qed
      with Inr show ?thesis
        by (simp add: updateDonorAvailability_accepted[OF Some acc] list_all2_save)
    qed
  qed
qed




section \<open>Completing a donation\<close>

text \<open>
  C7, the claim as stated fails: a donation dated 60 days before it is completed leaves the
  donor available. The server's local time is UTC, donor 10 is available, donation 30 is
  dated 1000, and the donation is completed at \<open>1000 + 60 days\<close>.
\<close>

theorem completeDonation_old_donation_stays_available:
  "snd (completeDonation utc (1000 + days 60)
          (example_db\<lparr>donations := [example_donation 30 10 20 1000 ''scheduled'' ''safe'']\<rparr>) 30)
     = ok 200 ''Donation completed successfully'' (example_donation 30 10 20 1000 ''completed'' ''safe'') \<and>
   donors (fst (completeDonation utc (1000 + days 60)
          (example_db\<lparr>donations := [example_donation 30 10 20 1000 ''scheduled'' ''safe'']\<rparr>) 30))
     = [(example_donor 10 1 ''O-'' True (Some 1000))\<lparr>donationCount := 1, totalVolumeDonated := 450\<rparr>] \<and>
   isAvailable ((example_donor 10 1 ''O-'' True (Some 1000))\<lparr>donationCount := 1, totalVolumeDonated := 450\<rparr>)"
  by (simp add: completeDonation_def example_db_def example_donation_def example_donor_def
      example_request_def findById_def save_def updateAvailability_def isEligibleToDonate_def
      isAvailable_def nextEligibleDonationDate_def updateStatus_def isExpired_def utc_def days_def
      ok_def Let_def)

lemma completeDonation_donors:
  assumes "findById donation_id i (donations s) = Some dn"
    and "donation_status dn \<noteq> ''completed''"
    and "findById donor_id (donation_donor dn) (donors s) = Some d"
  shows "donors (fst (completeDonation plusDays now s i)) =
         save donor_id
           (updateAvailability plusDays now
              (d\<lparr>lastDonationDate := Some (donationDate dn),
                 donationCount := donationCount d + 1,
                 totalVolumeDonated := totalVolumeDonated d + volumeDonated dn\<rparr>))
           (donors s)"
  using assms by (simp add: completeDonation_def Let_def split: option.splits)

lemma completeDonation_donors_other_paths:
  assumes "findById donation_id i (donations s) = None \<or>
           (\<exists>dn. findById donation_id i (donations s) = Some dn \<and>
                 (donation_status dn = ''completed'' \<or>
                  findById donor_id (donation_donor dn) (donors s) = None))"
  shows "donors (fst (completeDonation plusDays now s i)) = donors s"
  using assms by (auto simp: completeDonation_def Let_def split: option.splits)

lemma recomputed_availability:
  "isAvailable (updateAvailability plusDays now (d\<lparr>lastDonationDate := Some t, donationCount := c,
                                                  totalVolumeDonated := w\<rparr>))
   = (isAvailable d \<and> plusDays 56 t \<le> now)"
  by (simp add: updateAvailability_def isEligibleToDonate_def nextEligibleDonationDate_def
      isAvailable_def)

lemma completeDonation_pointwise:
  assumes dist: "distinct (map donor_id (donors s))"
  shows "list_all2 (\<lambda>new old. donor_id new = donor_id old \<and> (isAvailable new \<longrightarrow> isAvailable old))
           (donors (fst (completeDonation plusDays now s i))) (donors s)"
proof (cases "\<exists>dn d. findById donation_id i (donations s) = Some dn \<and> donation_status dn \<noteq> ''completed'' \<and>
                     findById donor_id (donation_donor dn) (donors s) = Some d")
  case False
  then have "findById donation_id i (donations s) = None \<or>
           (\<exists>dn. findById donation_id i (donations s) = Some dn \<and>
                 (donation_status dn = ''completed'' \<or>
                  findById donor_id (donation_donor dn) (donors s) = None))"
    by (cases "findById donation_id i (donations s)") auto
  then show ?thesis by (simp add: completeDonation_donors_other_paths list_all2_same)
next
  case True
  then obtain dn d where a: "findById donation_id i (donations s) = Some dn"
    and b: "donation_status dn \<noteq> ''completed''"
    and c: "findById donor_id (donation_donor dn) (donors s) = Some d"
    by blast
  define d' where "d' = updateAvailability plusDays now
              (d\<lparr>lastDonationDate := Some (donationDate dn),
                 donationCount := donationCount d + 1,
                 totalVolumeDonated := totalVolumeDonated d + volumeDonated dn\<rparr>)"
  have d: "d \<in> set (donors s)" using findById_ident[OF c] by simp
  have id: "donor_id d' = donor_id d" by (simp add: d'_def updateAvailability_def)
  have av: "isAvailable d' \<longrightarrow> isAvailable d" by (simp add: d'_def recomputed_availability)
  have "donor_id d' = donor_id x \<and> (isAvailable d' \<longrightarrow> isAvailable x)"
    if "x \<in> set (donors s)" and "donor_id x = donor_id d'" for x
  proof -
    have "x = d" by (rule same_ident_same_doc[OF dist that(1) d that(2)[unfolded id]])
    with id av show ?thesis by simp
  qed
  then show ?thesis
    unfolding completeDonation_donors[OF a b c] d'_def[symmetric]
    by (simp add: list_all2_save)
qed

text \<open>
  C7, amended. When \<open>completeDonation\<close> completes a donation whose donor exists, that donor's
  \<open>lastDonationDate\<close> becomes the donation's date and \<open>isAvailable\<close> is recomputed from it: it
  is true afterwards exactly when the donor was available before and the date 56 calendar
  days (of the server's local time) after the donation's date has been reached, so it is
  false at once while that date lies ahead; every other donor stays as it was. On no path
  does \<open>completeDonation\<close> turn the \<open>isAvailable\<close> of any donor from false to true, and neither
  does \<open>updateDonorAvailability\<close> for a request that carries a value for \<open>isAvailable\<close>.
\<close>

theorem completeDonation_recomputes_availability:
  "(distinct (map donor_id (donors s))
    \<longrightarrow> list_all2 (\<lambda>new old. donor_id new = donor_id old \<and> (isAvailable new \<longrightarrow> isAvailable old))
          (donors (fst (completeDonation plusDays now s i))) (donors s)) \<and>
   (findById donation_id i (donations s) = Some dn \<and> donation_status dn \<noteq> ''completed'' \<and>
    findById donor_id (donation_donor dn) (donors s) = Some d
    \<longrightarrow> (\<exists>d'. findById donor_id (donation_donor dn) (donors (fst (completeDonation plusDays now s i))) = Some d' \<and>
              lastDonationDate d' = Some (donationDate dn) \<and>
              isAvailable d' = (isAvailable d \<and> plusDays 56 (donationDate dn) \<le> now) \<and>
              (now < plusDays 56 (donationDate dn) \<longrightarrow> \<not> isAvailable d')) \<and>
        list_all2 (\<lambda>new old. donor_id old \<noteq> donation_donor dn \<longrightarrow> new = old)
          (donors (fst (completeDonation plusDays now s i))) (donors s)) \<and>
   (distinct (map donor_id ds) \<and> v \<noteq> JUndefined
    \<longrightarrow> list_all2 (\<lambda>new old. donor_id new = donor_id old \<and> (isAvailable new \<longrightarrow> isAvailable old))
          (fst (updateDonorAvailability plusDays now ds uid v)) ds)"
proof -
  { assume a: "findById donation_id i (donations s) = Some dn"
      and b: "donation_status dn \<noteq> ''completed''"
      and c: "findById donor_id (donation_donor dn) (donors s) = Some d"
    define d' where "d' = updateAvailability plusDays now
              (d\<lparr>lastDonationDate := Some (donationDate dn),
                 donationCount := donationCount d + 1,
                 totalVolumeDonated := totalVolumeDonated d + volumeDonated dn\<rparr>)"
    have id: "donor_id d' = donation_donor dn"
      using findById_ident[OF c] by (simp add: d'_def updateAvailability_def)
    have "findById donor_id (donation_donor dn) (donors (fst (completeDonation plusDays now s i))) = Some d'"
      unfolding completeDonation_donors[OF a b c] d'_def[symmetric]
      using c id by (rule findById_save)
    moreover have "lastDonationDate d' = Some (donationDate dn)"
      by (simp add: d'_def updateAvailability_def)
    moreover have "isAvailable d' = (isAvailable d \<and> plusDays 56 (donationDate dn) \<le> now)"
      by (simp add: d'_def recomputed_availability)
    moreover have "list_all2 (\<lambda>new old. donor_id old \<noteq> donation_donor dn \<longrightarrow> new = old)
          (donors (fst (completeDonation plusDays now s i))) (donors s)"
      unfolding completeDonation_donors[OF a b c] d'_def[symmetric]
      using id by (simp add: list_all2_save)
    ultimately have "(\<exists>d'. findById donor_id (donation_donor dn) (donors (fst (completeDonation plusDays now s i))) = Some d' \<and>
              lastDonationDate d' = Some (donationDate dn) \<and>
              isAvailable d' = (isAvailable d \<and> plusDays 56 (donationDate dn) \<le> now) \<and>
              (now < plusDays 56 (donationDate dn) \<longrightarrow> \<not> isAvailable d')) \<and>
        list_all2 (\<lambda>new old. donor_id old \<noteq> donation_donor dn \<longrightarrow> new = old)
          (donors (fst (completeDonation plusDays now s i))) (donors s)"
      by auto }
  then show ?thesis
    using completeDonation_pointwise[of s plusDays now i]
      updateDonorAvailability_pointwise[of ds v plusDays now uid]
    by blast
qed

theorem completeDonation_recomputes_availability_witness:
  "distinct (map donor_id (donors example_db)) \<and>
   findById donation_id 30 [example_donation 30 10 20 1000 ''scheduled'' ''safe'']
     = Some (example_donation 30 10 20 1000 ''scheduled'' ''safe'') \<and>
   findById donor_id 10 (donors example_db) = Some (example_donor 10 1 ''O-'' True None) \<and>
   (\<exists>d'. findById donor_id 10
            (donors (fst (completeDonation utc (1000 + days 1)
               (example_db\<lparr>donations := [example_donation 30 10 20 1000 ''scheduled'' ''safe'']\<rparr>) 30)))
          = Some d' \<and> lastDonationDate d' = Some 1000 \<and> \<not> isAvailable d') \<and>
   list_all2 (\<lambda>new old. donor_id new = donor_id old \<and> (isAvailable new \<longrightarrow> isAvailable old))
     (donors (fst (completeDonation utc (1000 + days 1)
               (example_db\<lparr>donations := [example_donation 30 10 20 1000 ''scheduled'' ''safe'']\<rparr>) 30)))
     (donors example_db)"
proof -
  let ?s = "example_db\<lparr>donations := [example_donation 30 10 20 1000 ''scheduled'' ''safe'']\<rparr>"
  let ?dn = "example_donation 30 10 20 1000 ''scheduled'' ''safe''"
  have ds: "donors ?s = donors example_db" by simp
  have e: "distinct (map donor_id (donors ?s))" by (simp add: example_db_def)
  have a: "findById donation_id 30 (donations ?s) = Some ?dn"
    by (simp add: findById_def example_donation_def)
  have b: "donation_status ?dn \<noteq> ''completed''" by (simp add: example_donation_def)
  have c: "findById donor_id (donation_donor ?dn) (donors ?s) = Some (example_donor 10 1 ''O-'' True None)"
    by (simp add: findById_def example_donation_def example_db_def example_donor_def)
  have t: "(1000 + days 1 :: int) < utc 56 (donationDate ?dn)"
    by (simp add: example_donation_def utc_def days_def)
  have dd: "donation_donor ?dn = 10" "donationDate ?dn = 1000" by (simp_all add: example_donation_def)
  have f: "distinct (map donor_id ([] :: donor list))" "JNull \<noteq> JUndefined" by simp_all
  from completeDonation_recomputes_availability[of ?s utc "1000 + days 1" 30 ?dn
      "example_donor 10 1 ''O-'' True None" "[]" JNull 0] e a b c t f
  have "(\<exists>d'. findById donor_id (donation_donor ?dn) (donors (fst (completeDonation utc (1000 + days 1) ?s 30))) = Some d' \<and>
              lastDonationDate d' = Some (donationDate ?dn) \<and> \<not> isAvailable d') \<and>
        list_all2 (\<lambda>new old. donor_id new = donor_id old \<and> (isAvailable new \<longrightarrow> isAvailable old))
          (donors (fst (completeDonation utc (1000 + days 1) ?s 30))) (donors ?s)"
    by blast
  with a c e show ?thesis unfolding dd ds by simp
qed

text \<open>
  \<open>updateDonor\<close> writes \<open>isAvailable\<close> as the body gives it and runs no eligibility check: a
  donor who gave blood one day ago and is unavailable is available after the profile update.
\<close>

lemma updateDonor_sets_available_unchecked:
  "\<not> isEligibleToDonate utc (1000 + days 1) (example_donor 10 1 ''O-'' False (Some 1000)) \<and>
   updateDonor [example_donor 10 1 ''O-'' False (Some 1000)] 1
     \<lparr>upd_age = None, upd_weight = None, upd_lastDonationDate = None,
      upd_isAvailable = Some True, upd_location = None\<rparr>
   = ([example_donor 10 1 ''O-'' True (Some 1000)],
      ok 200 ''Donor profile updated successfully'' (example_donor 10 1 ''O-'' True (Some 1000)))"
  by (simp add: updateDonor_def assign_def valid_donor_def valid_point_def save_def
      example_donor_def isEligibleToDonate_def isAvailable_def ok_def)

section \<open>Blood inventory status\<close>

text \<open>
  C9, the claim as stated fails: two valid entries that agree on \<open>unitsAvailable\<close>,
  \<open>minimumThreshold\<close> and \<open>expiryDate\<close> and differ in \<open>unitsReserved\<close> are saved at the same
  time with different statuses.
\<close>

theorem inventory_status_depends_on_reserved:
  "unitsAvailable (example_inventory 0 []) = unitsAvailable (example_inventory 3 []) \<and>
   minimumThreshold (example_inventory 0 []) = minimumThreshold (example_inventory 3 []) \<and>
   expiryDate (example_inventory 0 []) = expiryDate (example_inventory 3 []) \<and>
   BloodInventory_create 1000 (example_inventory 0 [])
     = Inr ((example_inventory 0 [])\<lparr>inventory_status := ''Available''\<rparr>) \<and>
   BloodInventory_create 1000 (example_inventory 3 [])
     = Inr ((example_inventory 3 [])\<lparr>inventory_status := ''Reserved''\<rparr>)"
  by (simp add: BloodInventory_create_def valid_inventory_def pre_save_def example_inventory_def
      bloodTypes_def)

text \<open>
  C9, amended. The pre-save middleware sets the status on every save from \<open>expiryDate\<close>
  compared with the time of the save, \<open>unitsAvailable\<close>, \<open>minimumThreshold\<close> and
  \<open>unitsReserved\<close>, and from nothing else: two entries that agree on these four fields and are
  saved at the same time end up with the same status, whatever their other fields and
  their status before.
\<close>

theorem inventory_status_function_of_four_fields:
  assumes "expiryDate a = expiryDate b" and "unitsAvailable a = unitsAvailable b"
    and "minimumThreshold a = minimumThreshold b" and "unitsReserved a = unitsReserved b"
  shows "inventory_status (pre_save now a) = inventory_status (pre_save now b) \<and>
         (\<forall>a' b'. BloodInventory_create now a = Inr a' \<and> BloodInventory_create now b = Inr b'
                   \<longrightarrow> inventory_status a' = inventory_status b')"
proof -
  have "inventory_status (pre_save now a) = inventory_status (pre_save now b)"
    using assms by (simp add: pre_save_def)
  then show ?thesis
    by (auto simp: BloodInventory_create_def split: if_splits)
qed

theorem inventory_status_function_of_four_fields_witness:
  "expiryDate (example_inventory 3 ''first'') = expiryDate ((example_inventory 3 ''second'')\<lparr>inventory_status := ''Expired'', maxCapacity := 80\<rparr>) \<and>
   inventory_status (pre_save 1000 (example_inventory 3 ''first'')) = ''Reserved'' \<and>
   inventory_status (pre_save 1000 ((example_inventory 3 ''second'')\<lparr>inventory_status := ''Expired'', maxCapacity := 80\<rparr>)) = ''Reserved''"
proof -
  let ?a = "example_inventory 3 ''first''"
  let ?b = "(example_inventory 3 ''second'')\<lparr>inventory_status := ''Expired'', maxCapacity := 80\<rparr>"
  have h: "expiryDate ?a = expiryDate ?b" "unitsAvailable ?a = unitsAvailable ?b"
    "minimumThreshold ?a = minimumThreshold ?b" "unitsReserved ?a = unitsReserved ?b"
    by (simp_all add: example_inventory_def)
  have v: "inventory_status (pre_save 1000 ?a) = ''Reserved''"
    by (simp add: pre_save_def example_inventory_def)
  from inventory_status_function_of_four_fields[OF h, of 1000] h(1) v show ?thesis by simp
qed

section \<open>Certificate issuance\<close>

text \<open>
  C2, the claim as stated fails: for donation 30, completed with \<open>overallResult = pending\<close>,
  a request by a user who is not its donor is answered with the authorization failure
  (403), not with the precondition failure.
\<close>

theorem generateCertificate_pending_not_donor:
  "overallResult (example_donation 30 10 20 1000 ''completed'' ''pending'') = ''pending'' \<and>
   generateCertificate (\<lambda>cs c. Inr c) True 2000 example_db (example_user 2 ''Ravi'' ''ravi@example.org'') 30
     = (example_db, [], fail 403 ''Not authorized to generate certificate for this donation'')"
  by (simp add: generateCertificate_def example_db_def example_donation_def example_donor_def
      example_user_def findById_def)

text \<open>
  C2, amended. For a donation whose donor exists, whenever the donation is not \<open>completed\<close>,
  or its \<open>overallResult\<close> is not \<open>safe\<close>, or a certificate for it exists already,
  \<open>generateCertificate\<close> creates no certificate and leaves the whole store as it was; it
  answers with the precondition failure (400) when the requester is the donation's donor,
  and with the authorization failure (403) when not.
\<close>

theorem generateCertificate_rejects:
  assumes "findById donation_id i (donations s) = Some dn"
    and "findById donor_id (donation_donor dn) (donors s) = Some d"
    and "donation_status dn \<noteq> ''completed'' \<or> overallResult dn \<noteq> ''safe'' \<or>
         find (\<lambda>c. certificate_donation c = donation_id dn) (certificates s) \<noteq> None"
  shows "generateCertificate create sent now s u i =
           (s, [],
            if donor_user d \<noteq> user_id u
            then fail 403 ''Not authorized to generate certificate for this donation''
            else if donation_status dn \<noteq> ''completed'' \<or> overallResult dn \<noteq> ''safe''
            then fail 400 not_completed_safe
            else fail 400 already_exists)"
  using assms by (auto simp: generateCertificate_def split: option.splits)

theorem generateCertificate_rejects_witness:
  "findById donation_id 30 (donations example_db)
     = Some (example_donation 30 10 20 1000 ''completed'' ''pending'') \<and>
   findById donor_id 10 (donors example_db) = Some (example_donor 10 1 ''O-'' True None) \<and>
   overallResult (example_donation 30 10 20 1000 ''completed'' ''pending'') \<noteq> ''safe'' \<and>
   generateCertificate (\<lambda>cs c. Inr c) True 2000 example_db (example_user 1 ''Asha'' ''asha@example.org'') 30
     = (example_db, [], fail 400 not_completed_safe)"
proof -
  let ?dn = "example_donation 30 10 20 1000 ''completed'' ''pending''"
  let ?d = "example_donor 10 1 ''O-'' True None"
  have a: "findById donation_id 30 (donations example_db) = Some ?dn"
    by (simp add: example_db_def findById_def example_donation_def)
  have b: "findById donor_id (donation_donor ?dn) (donors example_db) = Some ?d"
    by (simp add: example_db_def findById_def example_donation_def example_donor_def)
  have r: "overallResult ?dn \<noteq> ''safe''" by (simp add: example_donation_def)
  then have c: "donation_status ?dn \<noteq> ''completed'' \<or> overallResult ?dn \<noteq> ''safe'' \<or>
         find (\<lambda>c. certificate_donation c = donation_id ?dn) (certificates example_db) \<noteq> None"
    by simp
  have u: "donor_user ?d = user_id (example_user 1 ''Asha'' ''asha@example.org'')"
    by (simp add: example_donor_def example_user_def)
  have dd: "donation_donor ?dn = 10" by (simp add: example_donation_def)
  from generateCertificate_rejects[OF a b c, of "\<lambda>cs c. Inr c" True 2000 "example_user 1 ''Asha'' ''asha@example.org''"]
    a b r u
  show ?thesis unfolding dd by simp
qed

section \<open>Certificate verification\<close>

lemma verifyCertificate_not_issued:
  assumes "\<forall>c \<in> set (certificates s). verificationCode c = vcode \<longrightarrow> certificate_status c \<noteq> ''issued''"
  shows "verifyCertificate s vcode = fail 404 not_found_or_invalid"
proof -
  have "find (\<lambda>c. verificationCode c = vcode \<and> certificate_status c = ''issued'') (certificates s) = None"
    using assms by (auto simp: find_None_iff)
  then show ?thesis
    by (simp add: verifyCertificate_def Certificate_verifyCertificate_def)
qed

lemma verifyCertificate_revoked_like_nonexistent:
  assumes "\<forall>c \<in> set (certificates s). verificationCode c = revoked_code \<longrightarrow> certificate_status c = ''revoked''"
    and "\<forall>c \<in> set (certificates s). verificationCode c \<noteq> unknown_code"
  shows "verifyCertificate s revoked_code = verifyCertificate s unknown_code"
proof -
  have "verifyCertificate s revoked_code = fail 404 not_found_or_invalid"
    using assms(1) by (intro verifyCertificate_not_issued) auto
  moreover have "verifyCertificate s unknown_code = fail 404 not_found_or_invalid"
    using assms(2) by (intro verifyCertificate_not_issued) auto
  ultimately show ?thesis by simp
qed

lemma verifyCertificate_success_only_issued:
  assumes "success (verifyCertificate s vcode)"
  shows "\<exists>c \<in> set (certificates s). verificationCode c = vcode \<and> certificate_status c = ''issued''"
proof (rule ccontr)
  assume "\<not> ?thesis"
  then have "verifyCertificate s vcode = fail 404 not_found_or_invalid"
    by (intro verifyCertificate_not_issued) auto
  with assms show False by (simp add: fail_def)
qed

lemma verifyCertificate_issued_with_donor:
  assumes "c \<in> set (certificates s)" and "verificationCode c = vcode" and "certificate_status c = ''issued''"
    and "\<forall>c \<in> set (certificates s). \<exists>u \<in> set (users s). user_id u = certificate_donor c"
  shows "success (verifyCertificate s vcode) \<and> code (verifyCertificate s vcode) = 200"
proof -
  obtain c' where f: "find (\<lambda>c. verificationCode c = vcode \<and> certificate_status c = ''issued'') (certificates s) = Some c'"
    using assms(1-3) by (cases "find (\<lambda>c. verificationCode c = vcode \<and> certificate_status c = ''issued'') (certificates s)")
      (auto simp: find_None_iff)
  then have "c' \<in> set (certificates s)" by (auto dest: find_in_set)
  with assms(4) obtain u where "u \<in> set (users s)" "user_id u = certificate_donor c'" by blast
  then obtain u' where "findById user_id (certificate_donor c') (users s) = Some u'"
    unfolding findById_def
    by (cases "find (\<lambda>x. user_id x = certificate_donor c') (users s)") (auto simp: find_None_iff)
  with f show ?thesis
    by (simp add: verifyCertificate_def Certificate_verifyCertificate_def ok_def)
qed

text \<open>
  C3. Verification is to answer with the success payload exactly when a certificate with
  the code exists and is \<open>issued\<close>, and to answer a revoked and an unknown code alike. The
  lemmas above give success only for an issued certificate and one and the same 404 for
  revoked and unknown codes. The payload for every issued certificate fails: certificate
  \<open>CERT-1-ABCDE\<close> is issued to user 3, whose account is gone from the store, and verifying
  its code is answered with the server error (500).
\<close>

theorem verifyCertificate_issued_donor_deleted:
  "verifyCertificate
     (example_db\<lparr>certificates := [example_certificate ''CERT-1-ABCDE'' 3 30 ''LX1ABCDEFGH'' ''issued'']\<rparr>)
     ''LX1ABCDEFGH''
   = fail 500 ''Server error during certificate verification''"
  by (simp add: verifyCertificate_def Certificate_verifyCertificate_def example_db_def
      example_certificate_def example_user_def findById_def)

section \<open>Notification fan-out\<close>

lemma createBloodRequest_created:
  assumes "BloodRequest_create now oid (user_id u) body = Inr r"
  shows "snd (snd (snd (createBloodRequest geo transport now oid s u body)))
           = ok 201 ''Blood request created successfully'' r"
    and "requests (fst (createBloodRequest geo transport now oid s u body)) = requests s @ [r]"
  using assms by (simp_all add: createBloodRequest_def Let_def)

lemma createBloodRequest_response_ignores_transport:
  "snd (snd (snd (createBloodRequest geo transport now oid s u body)))
     = snd (snd (snd (createBloodRequest geo transport' now oid s u body)))"
  by (simp add: createBloodRequest_def Let_def split: sum.splits)

lemma createBloodRequest_fanout:
  "fst (snd (snd (createBloodRequest geo transport now oid s u body))) =
     (case BloodRequest_create now oid (user_id u) body of
        Inl e \<Rightarrow> []
      | Inr r \<Rightarrow>
          (case Donor_findNearby geo (users s) (donors s) (request_location r) 50000
                  (Some (request_bloodType r)) of
             Inl e \<Rightarrow> []
           | Inr ds \<Rightarrow> take 20 ds))"
  by (simp add: createBloodRequest_def Let_def split: sum.splits)

lemma createBloodRequest_at_most_20:
  "length (fst (snd (snd (createBloodRequest geo transport now oid s u body)))) \<le> 20"
  unfolding createBloodRequest_fanout by (simp split: sum.splits)

lemma Donor_findNearby_nearest_first:
  assumes "Donor_findNearby geo us ds p m bt = Inr res"
  shows "sorted (map (\<lambda>x. geo p (donor_location (fst x))) res)"
proof -
  obtain ns where ns: "near geo donor_location p m ds = Inr ns"
    and res: "map fst res =
              filter (\<lambda>d. stored_isAvailable d = Stored True \<and>
                          (case bt of
                             None \<Rightarrow> True
                           | Some t \<Rightarrow> if t = [] then True else donor_bloodType d = t)) ns"
    using assms by (auto simp: Donor_findNearby_def fst_populate split: sum.splits)
  have "sorted (map (\<lambda>x. geo p (donor_location x)) ns)"
    using ns by (rule near_nearest_first)
  then have "sorted (map (\<lambda>x. geo p (donor_location x)) (map fst res))"
    unfolding res by (simp add: sorted_filter)
  then show ?thesis by (simp add: comp_def)
qed

lemma notify_logs_failure_with_user:
  "\<not> transport (email u) \<Longrightarrow> FailedToNotifyDonor (email u) \<in> set (notify transport (d, Some u))"
  by (simp add: notify_def sendDonorNotification_def sendEmail_def)

text \<open>
  C8. A new blood request is to notify at most 20 donors, the first of the nearest-first
  search, and to answer with success whatever happens to the notifications, whose failures
  are logged and never reach the caller. The lemmas above give the cap, the order and the
  response. The logging fails: donor 10 is in range, available and of the requested type,
  and its user account (user 1) is gone from the store; the request is created and answered
  with 201, the one notification is dispatched to donor 10 and fails, and the console stays
  empty.
\<close>

theorem createBloodRequest_unlogged_failure:
  "fst (sendDonorNotification (\<lambda>a. True) (example_donor 10 1 ''O-'' True None, None)) = Inl TypeError \<and>
   createBloodRequest planar (\<lambda>a. True) 1000 21
     (example_db\<lparr>users := [example_user 2 ''Ravi'' ''ravi@example.org'']\<rparr>)
     (example_user 2 ''Ravi'' ''ravi@example.org'') (example_body ''O-'' 5000)
   = (example_db\<lparr>users := [example_user 2 ''Ravi'' ''ravi@example.org''],
                 requests := [example_request 20 ''A+'' ''high'' 9000000000 ''active'',
                              \<lparr>request_id = 21, requester = 2, request_bloodType = ''O-'', unitsNeeded = 2,
                               urgency = ''critical'', requiredBy = 5000, request_location = (77.21, 28.57),
                               request_status = ''active'', unitsFulfilled = 0\<rparr>]\<rparr>,
      [],
      [(example_donor 10 1 ''O-'' True None, None)],
      ok 201 ''Blood request created successfully''
        \<lparr>request_id = 21, requester = 2, request_bloodType = ''O-'', unitsNeeded = 2,
         urgency = ''critical'', requiredBy = 5000, request_location = (77.21, 28.57),
         request_status = ''active'', unitsFulfilled = 0\<rparr>)"
  by (simp add: createBloodRequest_def BloodRequest_create_def valid_request_def valid_point_def
      bloodTypes_def example_body_def example_db_def example_user_def example_donor_def
      example_request_def Donor_findNearby_def near_def planar_def populate_def findById_def
      sendEmail_def notify_def sendDonorNotification_def Let_def)

end
